theory Spec2Isabelle
  imports Main
begin

unbundle bit_operations_syntax

section \<open>The kaonic-commd update agent (src/ota/kaonic-ota.py)\<close>

text \<open>
  The agent is a Python program that keeps one executable installed under a fixed path,
  together with a backup copy, a recorded digest and a recorded version. Everything the
  program does to the outside world is made explicit here: the files it reads and writes
  are a map from paths to files, the calls to the process supervisor and the writes to
  persistent files are appended to a trace, and every exception a called function can
  raise is a value of type \<open>exn\<close>.
\<close>

subsection \<open>Data\<close>

text \<open>Python \<open>bytes\<close> are lists of 8-bit characters; a Python \<open>str\<close> is a list of code points.\<close>

type_synonym bytes = "char list"
type_synonym pystr = "nat list"

text \<open>
  The exceptions that matter to the control flow of the agent. \<open>PyException\<close> stands for
  any other subclass of \<open>Exception\<close>, named by its class.
\<close>

datatype exn = InvalidSignature | BadZipFile | FileNotFoundError | PyException string

text \<open>A regular file: its bytes and its permission bits (\<open>st_mode\<close>).\<close>

record regfile =
  content :: bytes
  st_mode :: nat

text \<open>
  The module-level path constants (lines 18 to 25), and the paths below the temporary
  directory of one upload request (\<open>temp_dir / name\<close>).
\<close>

datatype path =
    APP_PATH
  | BACKUP_PATH
  | HASH_PATH
  | VERSION_PATH
  | VERIFY_KEY_PATH
  | TEMP string

text \<open>
  What the agent does to the supervisor and to the persistent files, in the order it
  happens: \<open>systemctl stop\<close>, \<open>systemctl start\<close>, \<open>systemctl is-active\<close> with its answer,
  \<open>time.sleep\<close>, \<open>mkdir\<close> of the metadata directory, \<open>unlink\<close>, \<open>shutil.copy2\<close> and
  \<open>os.chmod\<close>.
\<close>

datatype event =
    SystemctlStop
  | SystemctlStart
  | SystemctlIsActive bool
  | Sleep nat
  | Mkdir
  | Unlink path
  | Copy2 path path
  | Chmod path nat

record world =
  metadata_dir :: bool
  files :: "path \<Rightarrow> regfile option"
  trace :: "event list"

text \<open>
  The library functions the agent calls and whose code is not part of the repository are
  parameters: SHA-256 as a hexadecimal string, the decoding of a text file in the
  platform's encoding, the extraction of a ZIP archive (member names to member bytes),
  the PEM parser, the two signature checks of the \<open>cryptography\<close> package, and the
  permission bits a newly created file gets.
\<close>

datatype public_key = RSAPublicKey bytes | Ed25519PublicKey bytes | OtherPublicKey

record platform =
  sha256_hexdigest :: "bytes \<Rightarrow> pystr"
  decode :: "bytes \<Rightarrow> exn + pystr"
  extractall :: "bytes \<Rightarrow> exn + (string \<Rightarrow> bytes option)"
  load_pem_public_key :: "bytes \<Rightarrow> exn + public_key"
  rsa_verify_pkcs1v15_sha256 :: "bytes \<Rightarrow> bytes \<Rightarrow> bytes \<Rightarrow> exn + unit"
  ed25519_verify :: "bytes \<Rightarrow> bytes \<Rightarrow> bytes \<Rightarrow> exn + unit"
  new_file_mode :: nat

subsection \<open>Digests: \<open>sha256sum\<close> (agent) and \<open>get_file_hash\<close> (package tool)\<close>

text \<open>
  A \<open>hashlib\<close> object is modelled by the bytes fed to it so far: \<open>update\<close> appends, and
  \<open>hexdigest\<close> is SHA-256 of what was fed. An open file is modelled by the bytes not yet
  read: \<open>f.read(n)\<close> returns the next \<open>n\<close> of them (fewer at the end of the file).

  \<open>read_loop n\<close> is the loop of both functions: \<open>for chunk in iter(lambda: f.read(n), b"")\<close>
  in \<open>sha256sum\<close> and \<open>while chunk := f.read(n)\<close> in \<open>get_file_hash\<close> both stop at the first
  empty chunk and feed every other chunk to the hash object.
\<close>

type_synonym hash_obj = bytes

definition hashlib_sha256 :: hash_obj where
  "hashlib_sha256 = []"

definition update :: "hash_obj \<Rightarrow> bytes \<Rightarrow> hash_obj" where
  "update h chunk = h @ chunk"

definition hexdigest :: "platform \<Rightarrow> hash_obj \<Rightarrow> pystr" where
  "hexdigest P h = sha256_hexdigest P h"

function read_loop :: "nat \<Rightarrow> bytes \<Rightarrow> hash_obj \<Rightarrow> hash_obj" where
  "read_loop n unread h =
     (let chunk = take n unread in
      if chunk = [] then h else read_loop n (drop n unread) (update h chunk))"
  by pat_completeness auto
termination
  by (relation "measure (\<lambda>(n, unread, h). length unread)") auto

declare read_loop.simps [simp del]

text \<open>The body of \<open>sha256sum\<close> once the file is open (lines 171 to 175), chunks of 4096 bytes.\<close>

definition sha256sum_open :: "platform \<Rightarrow> bytes \<Rightarrow> pystr" where
  "sha256sum_open P data = hexdigest P (read_loop 4096 data hashlib_sha256)"

text \<open>\<open>get_file_hash\<close> of the package tool (src/scripts/create-ota.py), chunks of 8192 bytes.\<close>

definition get_file_hash :: "platform \<Rightarrow> bytes \<Rightarrow> pystr" where
  "get_file_hash P data = hexdigest P (read_loop 8192 data hashlib_sha256)"

subsection \<open>File operations\<close>

text \<open>
  Sequencing of calls that can raise: the first exception ends the computation, as an
  exception that nothing catches does.
\<close>

definition and_then :: "exn + 'a \<Rightarrow> ('a \<Rightarrow> exn + 'b) \<Rightarrow> exn + 'b" where
  "and_then r k = (case r of Inl e \<Rightarrow> Inl e | Inr x \<Rightarrow> k x)"

definition path_exists :: "world \<Rightarrow> path \<Rightarrow> bool" where
  "path_exists s p = (files s p \<noteq> None)"

definition read_bytes :: "world \<Rightarrow> path \<Rightarrow> exn + bytes" where
  "read_bytes s p =
     (case files s p of None \<Rightarrow> Inl FileNotFoundError | Some f \<Rightarrow> Inr (content f))"

definition read_text :: "platform \<Rightarrow> world \<Rightarrow> path \<Rightarrow> exn + pystr" where
  "read_text P s p = and_then (read_bytes s p) (decode P)"

text \<open>
  \<open>str.strip()\<close> removes the white space at both ends; \<open>isspace\<close> lists the code points
  Python counts as white space.
\<close>

definition isspace :: "nat \<Rightarrow> bool" where
  "isspace c =
     ((9 \<le> c \<and> c \<le> 13) \<or> (28 \<le> c \<and> c \<le> 32) \<or> c = 133 \<or> c = 160 \<or> c = 5760
      \<or> (8192 \<le> c \<and> c \<le> 8202) \<or> c = 8232 \<or> c = 8233 \<or> c = 8239 \<or> c = 8287
      \<or> c = 12288)"

definition strip :: "pystr \<Rightarrow> pystr" where
  "strip t = rev (dropWhile isspace (rev (dropWhile isspace t)))"

text \<open>\<open>sha256sum\<close> (lines 170 to 175): opening a missing file raises.\<close>

definition sha256sum :: "platform \<Rightarrow> world \<Rightarrow> path \<Rightarrow> exn + pystr" where
  "sha256sum P s file_path =
     (case files s file_path of
        None \<Rightarrow> Inl FileNotFoundError
      | Some f \<Rightarrow> Inr (sha256sum_open P (content f)))"

definition unlink :: "path \<Rightarrow> world \<Rightarrow> exn + world" where
  "unlink p s =
     (case files s p of
        None \<Rightarrow> Inl FileNotFoundError
      | Some f \<Rightarrow> Inr (s\<lparr>files := (files s)(p := None), trace := trace s @ [Unlink p]\<rparr>))"

text \<open>\<open>shutil.copy2\<close> copies the bytes and the permission bits.\<close>

definition copy2 :: "path \<Rightarrow> path \<Rightarrow> world \<Rightarrow> exn + world" where
  "copy2 src dst s =
     (case files s src of
        None \<Rightarrow> Inl FileNotFoundError
      | Some f \<Rightarrow> Inr (s\<lparr>files := (files s)(dst \<mapsto> f), trace := trace s @ [Copy2 src dst]\<rparr>))"

definition stat_st_mode :: "world \<Rightarrow> path \<Rightarrow> exn + nat" where
  "stat_st_mode s p =
     (case files s p of None \<Rightarrow> Inl FileNotFoundError | Some f \<Rightarrow> Inr (st_mode f))"

definition chmod :: "path \<Rightarrow> nat \<Rightarrow> world \<Rightarrow> exn + world" where
  "chmod p m s =
     (case files s p of
        None \<Rightarrow> Inl FileNotFoundError
      | Some f \<Rightarrow>
          Inr (s\<lparr>files := (files s)(p \<mapsto> f\<lparr>st_mode := m\<rparr>), trace := trace s @ [Chmod p m]\<rparr>))"

definition S_IXUSR :: nat where "S_IXUSR = 64"
definition S_IXGRP :: nat where "S_IXGRP = 8"
definition S_IXOTH :: nat where "S_IXOTH = 1"

definition mkdir_metadata :: "world \<Rightarrow> world" where
  "mkdir_metadata s = s\<lparr>metadata_dir := True, trace := trace s @ [Mkdir]\<rparr>"

subsection \<open>The service controller (lines 177 to 201)\<close>

text \<open>
  The supervisor's answer to \<open>systemctl is-active\<close> is not the agent's to decide: it is
  any function of the state of the device, which includes everything that has happened so
  far. \<open>stop\<close> and \<open>start\<close> are run with \<open>check=False\<close> and never fail the caller.
\<close>

type_synonym supervisor = "world \<Rightarrow> bool"

definition stop_kaonic_commd :: "world \<Rightarrow> world" where
  "stop_kaonic_commd s = s\<lparr>trace := trace s @ [SystemctlStop]\<rparr>"

definition is_kaonic_running :: "supervisor \<Rightarrow> world \<Rightarrow> bool \<times> world" where
  "is_kaonic_running sv s =
     (let returncode_is_0 = sv s
      in (returncode_is_0, s\<lparr>trace := trace s @ [SystemctlIsActive returncode_is_0]\<rparr>))"

definition launch_kaonic_commd :: "world \<Rightarrow> world" where
  "launch_kaonic_commd s = s\<lparr>trace := trace s @ [SystemctlStart]\<rparr>"

definition sleep :: "nat \<Rightarrow> world \<Rightarrow> world" where
  "sleep n s = s\<lparr>trace := trace s @ [Sleep n]\<rparr>"

subsection \<open>Backup and restore (lines 203 to 216)\<close>

definition backup_current :: "world \<Rightarrow> exn + world" where
  "backup_current s =
     and_then (if path_exists s BACKUP_PATH then unlink BACKUP_PATH s else Inr s) (\<lambda>s1.
     if path_exists s1 APP_PATH then copy2 APP_PATH BACKUP_PATH s1 else Inr s1)"

definition restore_backup :: "world \<Rightarrow> exn + world" where
  "restore_backup s =
     (if path_exists s BACKUP_PATH then copy2 BACKUP_PATH APP_PATH s else Inr s)"

subsection \<open>The startup reconciler: \<open>validate_app_file\<close> (lines 32 to 50)\<close>

definition validate_app_file :: "platform \<Rightarrow> world \<Rightarrow> exn + world" where
  "validate_app_file P s =
     (if \<not> metadata_dir s then Inr (mkdir_metadata s)
      else if \<not> path_exists s APP_PATH \<and> \<not> path_exists s BACKUP_PATH then Inr s
      else
        and_then (if path_exists s HASH_PATH
                  then and_then (read_text P s HASH_PATH) (\<lambda>t. Inr (strip t))
                  else Inr []) (\<lambda>expected_hash.
        and_then (if path_exists s APP_PATH then sha256sum P s APP_PATH else Inr [])
          (\<lambda>actual_hash.
        if (\<not> path_exists s APP_PATH \<or> \<not> path_exists s HASH_PATH)
           \<or> expected_hash \<noteq> actual_hash
        then and_then (restore_backup (stop_kaonic_commd s)) (\<lambda>s1.
             Inr (launch_kaonic_commd s1))
        else Inr s)))"

subsection \<open>The signature check: \<open>validate_signature\<close> (lines 52 to 77)\<close>

text \<open>The \<open>try\<close> block: the first exception raised in it, or the value it returns.\<close>

definition validate_signature_try ::
  "platform \<Rightarrow> world \<Rightarrow> path \<Rightarrow> path \<Rightarrow> path \<Rightarrow> exn + bool" where
  "validate_signature_try P s file_path sig_path key_path =
     and_then (read_bytes s key_path) (\<lambda>key_bytes.
     and_then (load_pem_public_key P key_bytes) (\<lambda>public_key.
     and_then (read_bytes s file_path) (\<lambda>file_data.
     and_then (read_bytes s sig_path) (\<lambda>signature.
       case public_key of
         RSAPublicKey k \<Rightarrow>
           and_then (rsa_verify_pkcs1v15_sha256 P k signature file_data) (\<lambda>_. Inr True)
       | Ed25519PublicKey k \<Rightarrow>
           and_then (ed25519_verify P k signature file_data) (\<lambda>_. Inr True)
       | OtherPublicKey \<Rightarrow> Inr False))))"

text \<open>
  The two handlers: \<open>except InvalidSignature\<close> and \<open>except Exception\<close>. Every value of
  \<open>exn\<close> is a subclass of \<open>Exception\<close>.
\<close>

definition validate_signature ::
  "platform \<Rightarrow> world \<Rightarrow> path \<Rightarrow> path \<Rightarrow> path \<Rightarrow> exn + bool" where
  "validate_signature P s file_path sig_path key_path =
     (case validate_signature_try P s file_path sig_path key_path of
        Inr b \<Rightarrow> Inr b
      | Inl InvalidSignature \<Rightarrow> Inr False
      | Inl e \<Rightarrow> Inr False)"

subsection \<open>The upload transaction: \<open>upload_ota\<close> (lines 79 to 159)\<close>

text \<open>
  The request carries at most one uploaded file under the name \<open>file\<close>, with its content
  type and its bytes. The response is the JSON detail message and the HTTP status.
\<close>

record file_storage =
  content_type :: string
  stream :: bytes

record request =
  files_file :: "file_storage option"

datatype response = Json string nat

text \<open>
  \<open>tempfile.TemporaryDirectory\<close>: the directory is new, hence empty, when the block is
  entered, and it is removed with all it holds when the block is left.
\<close>

definition without_temp :: "world \<Rightarrow> world" where
  "without_temp s = s\<lparr>files := (\<lambda>p. case p of TEMP name \<Rightarrow> None | _ \<Rightarrow> files s p)\<rparr>"

definition save :: "platform \<Rightarrow> file_storage \<Rightarrow> path \<Rightarrow> world \<Rightarrow> world" where
  "save P file p s =
     s\<lparr>files := (files s)(p \<mapsto> \<lparr>content = stream file, st_mode = new_file_mode P\<rparr>)\<rparr>"

text \<open>\<open>zip_ref.extractall(temp_dir)\<close>: every member is written below the temporary directory.\<close>

definition extract_to_temp :: "platform \<Rightarrow> (string \<Rightarrow> bytes option) \<Rightarrow> world \<Rightarrow> world" where
  "extract_to_temp P members s =
     s\<lparr>files := (\<lambda>p. case p of
         TEMP name \<Rightarrow>
           (case members name of
              Some b \<Rightarrow> Some \<lparr>content = b, st_mode = new_file_mode P\<rparr>
            | None \<Rightarrow> files s p)
       | _ \<Rightarrow> files s p)\<rparr>"

definition zip_path :: path where "zip_path = TEMP ''upload.zip''"
definition app_path :: path where "app_path = TEMP ''kaonic-commd''"
definition hash_path :: path where "hash_path = TEMP ''kaonic-commd.sha256''"
definition sig_path :: path where "sig_path = TEMP ''kaonic-commd.sig''"
definition version_path :: path where "version_path = TEMP ''kaonic-commd.version''"

definition required_files :: "string list" where
  "required_files =
     [''kaonic-commd'', ''kaonic-commd.sha256'', ''kaonic-commd.version'', ''kaonic-commd.sig'']"

text \<open>The loop over \<open>required_files\<close> (lines 112 to 115): the first missing name, if any.\<close>

fun first_missing :: "world \<Rightarrow> string list \<Rightarrow> string option" where
  "first_missing s [] = None"
| "first_missing s (req_file # rest) =
     (if \<not> path_exists s (TEMP req_file) then Some req_file else first_missing s rest)"

text \<open>
  The loop \<open>for _ in range(10)\<close> (lines 143 to 148), by the number of iterations left:
  a check that finds the service active is followed by a sleep of one second and the next
  iteration, a check that finds it not active leaves the loop.
\<close>

primrec health_loop :: "supervisor \<Rightarrow> nat \<Rightarrow> world \<Rightarrow> world" where
  "health_loop sv 0 s = s"
| "health_loop sv (Suc n) s =
     (let (running, s1) = is_kaonic_running sv s
      in if running then health_loop sv n (sleep 1 s1) else s1)"

text \<open>
  The check after the loop (line 150) decides between commit and rollback; the loop and
  that check together are the health probe.
\<close>

definition probe_healthy :: "supervisor \<Rightarrow> world \<Rightarrow> bool \<times> world" where
  "probe_healthy sv s = is_kaonic_running sv (health_loop sv 10 s)"

text \<open>
  Lines 131 to 140, once both checks have passed: stop the service, back the installed
  binary up, copy the candidate over it, add the execute bits, start the service.
\<close>

definition install_candidate :: "world \<Rightarrow> exn + world" where
  "install_candidate s =
     and_then (backup_current (stop_kaonic_commd s)) (\<lambda>s1.
     and_then (copy2 app_path APP_PATH s1) (\<lambda>s2.
     and_then (stat_st_mode s2 APP_PATH) (\<lambda>current_permissions.
     and_then (chmod APP_PATH (current_permissions OR S_IXUSR OR S_IXGRP OR S_IXOTH) s2)
       (\<lambda>s3.
     Inr (launch_kaonic_commd s3)))))"

text \<open>Lines 131 to 159: installation, health probe, then commit or rollback.\<close>

definition upload_ota_install :: "supervisor \<Rightarrow> world \<Rightarrow> exn + response \<times> world" where
  "upload_ota_install sv s =
     and_then (install_candidate s) (\<lambda>s3.
     let (running, s4) = probe_healthy sv s3
     in if running then
          and_then (copy2 hash_path HASH_PATH s4) (\<lambda>s5.
          and_then (copy2 version_path VERSION_PATH s5) (\<lambda>s6.
          Inr (Json ''Update successful'' 200, s6)))
        else
          and_then (restore_backup s4) (\<lambda>s5.
          Inr (Json ''Failed to start new app, rollback done'' 500,
               launch_kaonic_commd s5)))"

text \<open>Lines 98 to 129, inside the temporary directory: extraction and the two checks.\<close>

definition upload_ota_in_temp ::
  "platform \<Rightarrow> supervisor \<Rightarrow> file_storage \<Rightarrow> world \<Rightarrow> exn + response \<times> world" where
  "upload_ota_in_temp P sv file s0 =
     (let s1 = save P file zip_path s0 in
      case extractall P (stream file) of
        Inl e \<Rightarrow> (if e = BadZipFile then Inr (Json ''Invalid ZIP file'' 400, s1) else Inl e)
      | Inr members \<Rightarrow>
          (let s2 = extract_to_temp P members s1 in
           case first_missing s2 required_files of
             Some req_file \<Rightarrow>
               Inr (Json (''Missing '' @ req_file @ '' in OTA package'') 400, s2)
           | None \<Rightarrow>
               and_then (read_text P s2 hash_path) (\<lambda>t.
               let expected_hash = strip t in
               and_then (sha256sum P s2 app_path) (\<lambda>actual_hash.
               if expected_hash \<noteq> actual_hash
               then Inr (Json ''SHA256 hash mismatch'' 400, s2)
               else
                 and_then (validate_signature P s2 app_path sig_path VERIFY_KEY_PATH)
                   (\<lambda>valid.
                 if \<not> valid
                 then Inr (Json ''SHA256 hash mismatch'' 400, s2)
                 else upload_ota_install sv s2)))))"

text \<open>
  The handler. An exception that leaves it (\<open>Inl\<close>) is not caught by the agent. The state
  returned with a response is the state of the device after the temporary directory is
  gone.
\<close>

definition upload_ota ::
  "platform \<Rightarrow> supervisor \<Rightarrow> request \<Rightarrow> world \<Rightarrow> exn + response \<times> world" where
  "upload_ota P sv req s =
     (case files_file req of
        None \<Rightarrow> Inr (Json ''No file uploaded'' 400, s)
      | Some file \<Rightarrow>
          if content_type file \<noteq> ''application/x-zip-compressed''
          then Inr (Json ''Only ZIP files accepted'' 400, s)
          else if \<not> path_exists s VERIFY_KEY_PATH
          then Inr (Json ''OTA certificate is not present'' 500, s)
          else
            and_then (upload_ota_in_temp P sv file (without_temp s)) (\<lambda>(resp, s').
            Inr (resp, without_temp s')))"

subsection \<open>Vocabulary of the properties\<close>

text \<open>
  The temporary directory of a request once the upload is saved and the archive with the
  given members is extracted (lines 90 to 105).
\<close>

definition staged ::
  "platform \<Rightarrow> file_storage \<Rightarrow> (string \<Rightarrow> bytes option) \<Rightarrow> world \<Rightarrow> world" where
  "staged P file members s =
     extract_to_temp P members (save P file zip_path (without_temp s))"

text \<open>What was appended to the trace between two states.\<close>

definition events_since :: "world \<Rightarrow> world \<Rightarrow> event list" where
  "events_since s s' = drop (length (trace s)) (trace s')"

text \<open>The events of the health probe: a check of the service, or a sleep.\<close>

fun is_poll :: "event \<Rightarrow> bool" where
  "is_poll (SystemctlIsActive b) = True"
| "is_poll (Sleep n) = True"
| "is_poll e = False"

text \<open>The events that write the Recorded Digest or the Recorded Version.\<close>

fun writes_recorded :: "event \<Rightarrow> bool" where
  "writes_recorded (Copy2 src dst) = (dst = HASH_PATH \<or> dst = VERSION_PATH)"
| "writes_recorded (Unlink p) = (p = HASH_PATH \<or> p = VERSION_PATH)"
| "writes_recorded (Chmod p m) = (p = HASH_PATH \<or> p = VERSION_PATH)"
| "writes_recorded e = False"

text \<open>
  The signature verifier as the specification words it: true only when the key parses as
  an RSA or an Ed25519 key and that scheme's verification of the signature over the message
  succeeds; false for every other key type, missing file or failure.
\<close>

definition verification_succeeds ::
  "platform \<Rightarrow> regfile option \<Rightarrow> regfile option \<Rightarrow> regfile option \<Rightarrow> bool" where
  "verification_succeeds P key message signature =
     (case (key, message, signature) of
        (Some k, Some m, Some g) \<Rightarrow>
          (case load_pem_public_key P (content k) of
             Inr (RSAPublicKey rk) \<Rightarrow>
               rsa_verify_pkcs1v15_sha256 P rk (content g) (content m) = Inr ()
           | Inr (Ed25519PublicKey ek) \<Rightarrow>
               ed25519_verify P ek (content g) (content m) = Inr ()
           | _ \<Rightarrow> False)
      | _ \<Rightarrow> False)"

text \<open>
  The health probe as the specification words it: up to \<open>maxAttempts\<close> checks, a delay
  between checks, true at the first check that finds the service active.
\<close>

primrec probeHealthy_spec :: "supervisor \<Rightarrow> nat \<Rightarrow> world \<Rightarrow> bool \<times> world" where
  "probeHealthy_spec sv 0 s = (False, s)"
| "probeHealthy_spec sv (Suc n) s =
     (let (running, s1) = is_kaonic_running sv s
      in if running then (True, s1)
         else if n = 0 then (False, s1)
         else probeHealthy_spec sv n (sleep 1 s1))"

subsection \<open>A concrete platform, devices, packages and supervisors\<close>

text \<open>
  A small platform on which everything evaluates: the digest of a byte string is the list
  of its byte values, text is decoded byte by byte, an archive is one of three fixed
  uploads, and a signature over \<open>m\<close> is \<open>sig:\<close> followed by \<open>m\<close>.
\<close>

definition demo_members ::
  "bytes \<Rightarrow> bytes \<Rightarrow> bytes \<Rightarrow> bytes \<Rightarrow> string \<Rightarrow> bytes option" where
  "demo_members bin digest version signature name =
     (if name = ''kaonic-commd'' then Some bin
      else if name = ''kaonic-commd.sha256'' then Some digest
      else if name = ''kaonic-commd.version'' then Some version
      else if name = ''kaonic-commd.sig'' then Some signature
      else None)"

definition good_members :: "string \<Rightarrow> bytes option" where
  "good_members = demo_members ''new'' (''new'' @ [CHR 0x0A]) ''v2'' ''sig:new''"

definition tampered_members :: "string \<Rightarrow> bytes option" where
  "tampered_members = demo_members ''new'' (''old'' @ [CHR 0x0A]) ''v2'' ''sig:new''"

definition forged_members :: "string \<Rightarrow> bytes option" where
  "forged_members = demo_members ''new'' (''new'' @ [CHR 0x0A]) ''v2'' ''sig:old''"

definition demo_extractall :: "bytes \<Rightarrow> exn + (string \<Rightarrow> bytes option)" where
  "demo_extractall data =
     (if data = ''good'' then Inr good_members
      else if data = ''tampered'' then Inr tampered_members
      else if data = ''forged'' then Inr forged_members
      else Inl BadZipFile)"

definition demo_load_pem :: "bytes \<Rightarrow> exn + public_key" where
  "demo_load_pem data =
     (if data = ''rsa'' then Inr (RSAPublicKey ''k'')
      else if data = ''ed25519'' then Inr (Ed25519PublicKey ''k'')
      else if data = ''dsa'' then Inr OtherPublicKey
      else Inl (PyException ''ValueError''))"

definition demo_verify :: "bytes \<Rightarrow> bytes \<Rightarrow> bytes \<Rightarrow> exn + unit" where
  "demo_verify k signature data =
     (if signature = ''sig:'' @ data then Inr () else Inl InvalidSignature)"

definition demo_platform :: platform where
  "demo_platform =
     \<lparr>sha256_hexdigest = map of_char,
      decode = (\<lambda>b. Inr (map of_char b)),
      extractall = demo_extractall,
      load_pem_public_key = demo_load_pem,
      rsa_verify_pkcs1v15_sha256 = demo_verify,
      ed25519_verify = demo_verify,
      new_file_mode = 420\<rparr>"

definition old_binary :: regfile where
  "old_binary = \<lparr>content = ''old'', st_mode = 493\<rparr>"

text \<open>A device on which the binary \<open>old\<close> was committed, and a device with the key only.\<close>

definition committed_device :: world where
  "committed_device =
     \<lparr>metadata_dir = True,
      files = (\<lambda>p. None)
        (APP_PATH \<mapsto> old_binary,
         HASH_PATH \<mapsto> \<lparr>content = ''old'' @ [CHR 0x0A], st_mode = 420\<rparr>,
         VERSION_PATH \<mapsto> \<lparr>content = ''v1'', st_mode = 420\<rparr>,
         VERIFY_KEY_PATH \<mapsto> \<lparr>content = ''rsa'', st_mode = 420\<rparr>),
      trace = []\<rparr>"

definition fresh_device :: world where
  "fresh_device =
     \<lparr>metadata_dir = True,
      files = (\<lambda>p. None)(VERIFY_KEY_PATH \<mapsto> \<lparr>content = ''rsa'', st_mode = 420\<rparr>),
      trace = []\<rparr>"

text \<open>
  A device on which an installation was interrupted after the candidate \<open>new\<close> was copied
  over the Active Binary: the backup and the records still describe \<open>old\<close>.
\<close>

definition interrupted_device :: world where
  "interrupted_device =
     \<lparr>metadata_dir = True,
      files = (\<lambda>p. None)
        (APP_PATH \<mapsto> \<lparr>content = ''new'', st_mode = 493\<rparr>,
         BACKUP_PATH \<mapsto> old_binary,
         HASH_PATH \<mapsto> \<lparr>content = ''old'' @ [CHR 0x0A], st_mode = 420\<rparr>,
         VERSION_PATH \<mapsto> \<lparr>content = ''v1'', st_mode = 420\<rparr>,
         VERIFY_KEY_PATH \<mapsto> \<lparr>content = ''rsa'', st_mode = 420\<rparr>),
      trace = []\<rparr>"

text \<open>
  A device whose binary \<open>old\<close> was put in place without the agent: there is no backup
  and nothing is recorded.
\<close>

definition unrecorded_device :: world where
  "unrecorded_device =
     \<lparr>metadata_dir = True,
      files = (\<lambda>p. None)
        (APP_PATH \<mapsto> old_binary,
         VERIFY_KEY_PATH \<mapsto> \<lparr>content = ''rsa'', st_mode = 420\<rparr>),
      trace = []\<rparr>"

definition zip_upload :: "bytes \<Rightarrow> file_storage" where
  "zip_upload data = \<lparr>content_type = ''application/x-zip-compressed'', stream = data\<rparr>"

definition upload_request :: "bytes \<Rightarrow> request" where
  "upload_request data = \<lparr>files_file = Some (zip_upload data)\<rparr>"

text \<open>
  Three supervisors: one that never finds the service active, one that always does, and
  one that finds it active until the first check has said so (a service that starts and
  exits at once).
\<close>

definition never_active :: supervisor where
  "never_active s = False"

definition always_active :: supervisor where
  "always_active s = True"

definition active_at_first_check_only :: supervisor where
  "active_at_first_check_only s = (SystemctlIsActive True \<notin> set (trace s))"

section \<open>Properties\<close>

subsection \<open>Digests\<close>

lemma read_loop_feeds_all: "read_loop n unread h = (if n = 0 then h else h @ unread)"
proof (induction n unread h rule: read_loop.induct)
  case (1 n unread h)
  show ?case
  proof (cases "take n unread = []")
    case True
    then show ?thesis
      by (subst read_loop.simps) auto
  next
    case False
    then have "n \<noteq> 0" by auto
    have "read_loop n unread h = read_loop n (drop n unread) (update h (take n unread))"
      using False by (subst read_loop.simps) simp
    also have "\<dots> = update h (take n unread) @ drop n unread"
      using "1.IH" [OF refl False] \<open>n \<noteq> 0\<close> by simp
    finally show ?thesis
      using \<open>n \<noteq> 0\<close> by (simp add: update_def)
  qed
qed

text \<open>
  C9. The digest is a function of the content only: the chunked computation of the agent
  (4096-byte chunks) and that of the package tool (8192-byte chunks) both yield SHA-256 of
  the whole byte sequence, and so does the loop with any other positive chunk size.
\<close>

theorem digest_independent_of_chunking:
  "sha256sum_open P B = sha256_hexdigest P B
   \<and> get_file_hash P B = sha256_hexdigest P B
   \<and> sha256sum_open P B = get_file_hash P B
   \<and> (0 < n \<longrightarrow> hexdigest P (read_loop n B hashlib_sha256) = sha256_hexdigest P B)"
  by (simp add: sha256sum_open_def get_file_hash_def hexdigest_def hashlib_sha256_def
      read_loop_feeds_all)

lemma sha256sum_eq:
  "sha256sum P s p = (case files s p of None \<Rightarrow> Inl FileNotFoundError
                      | Some f \<Rightarrow> Inr (sha256_hexdigest P (content f)))"
  by (simp add: sha256sum_def sha256sum_open_def hexdigest_def hashlib_sha256_def
      read_loop_feeds_all split: option.splits)

subsection \<open>Facts about the temporary directory\<close>

lemma and_then_simps [simp]:
  "and_then (Inl e) k = Inl e"
  "and_then (Inr x) k = k x"
  by (simp_all add: and_then_def)

lemma staged_persistent [simp]:
  "files (staged P file members s) APP_PATH = files s APP_PATH"
  "files (staged P file members s) BACKUP_PATH = files s BACKUP_PATH"
  "files (staged P file members s) HASH_PATH = files s HASH_PATH"
  "files (staged P file members s) VERSION_PATH = files s VERSION_PATH"
  "files (staged P file members s) VERIFY_KEY_PATH = files s VERIFY_KEY_PATH"
  "trace (staged P file members s) = trace s"
  "metadata_dir (staged P file members s) = metadata_dir s"
  by (simp_all add: staged_def extract_to_temp_def save_def without_temp_def zip_path_def)

lemma staged_temp:
  "files (staged P file members s) (TEMP name) =
     (case members name of
        Some b \<Rightarrow> Some \<lparr>content = b, st_mode = new_file_mode P\<rparr>
      | None \<Rightarrow> if name = ''upload.zip''
                then Some \<lparr>content = stream file, st_mode = new_file_mode P\<rparr> else None)"
  by (simp add: staged_def extract_to_temp_def save_def without_temp_def zip_path_def
      split: option.splits)

lemma without_temp_simps [simp]:
  "files (without_temp s) APP_PATH = files s APP_PATH"
  "files (without_temp s) BACKUP_PATH = files s BACKUP_PATH"
  "files (without_temp s) HASH_PATH = files s HASH_PATH"
  "files (without_temp s) VERSION_PATH = files s VERSION_PATH"
  "files (without_temp s) VERIFY_KEY_PATH = files s VERIFY_KEY_PATH"
  "files (without_temp s) (TEMP name) = None"
  "trace (without_temp s) = trace s"
  "metadata_dir (without_temp s) = metadata_dir s"
  by (simp_all add: without_temp_def)

lemma without_temp_staged: "without_temp (staged P file members s) = without_temp s"
  by (simp add: staged_def extract_to_temp_def save_def without_temp_def zip_path_def fun_eq_iff
      split: path.splits)

lemma without_temp_save:
  "without_temp (save P file zip_path (without_temp s)) = without_temp s"
  by (simp add: save_def without_temp_def zip_path_def fun_eq_iff split: path.splits)

text \<open>What the checks read in the temporary directory of a package with its four members.\<close>

lemma staged_members:
  assumes "members ''kaonic-commd'' = Some bin"
    and "members ''kaonic-commd.sha256'' = Some digest"
    and "members ''kaonic-commd.version'' = Some version"
    and "members ''kaonic-commd.sig'' = Some signature"
  shows "first_missing (staged P file members s) required_files = None"
    and "read_text P (staged P file members s) hash_path = decode P digest"
    and "sha256sum P (staged P file members s) app_path = Inr (sha256_hexdigest P bin)"
    and "files (staged P file members s) app_path
           = Some \<lparr>content = bin, st_mode = new_file_mode P\<rparr>"
    and "files (staged P file members s) hash_path
           = Some \<lparr>content = digest, st_mode = new_file_mode P\<rparr>"
    and "files (staged P file members s) version_path
           = Some \<lparr>content = version, st_mode = new_file_mode P\<rparr>"
  using assms
  by (simp_all add: required_files_def path_exists_def staged_temp read_text_def read_bytes_def
      sha256sum_eq app_path_def hash_path_def version_path_def)

lemma first_missing_None:
  "first_missing s names = None \<Longrightarrow> name \<in> set names \<Longrightarrow> path_exists s (TEMP name)"
  by (induction names) (auto split: if_splits)

lemma staged_required_present:
  assumes "first_missing (staged P file members s) required_files = None"
  shows "\<exists>bin h v. members ''kaonic-commd'' = Some bin
      \<and> members ''kaonic-commd.sha256'' = Some h
      \<and> members ''kaonic-commd.version'' = Some v"
proof -
  have "path_exists (staged P file members s) (TEMP ''kaonic-commd'')"
    "path_exists (staged P file members s) (TEMP ''kaonic-commd.sha256'')"
    "path_exists (staged P file members s) (TEMP ''kaonic-commd.version'')"
    by (rule first_missing_None [OF assms], simp add: required_files_def)+
  then show ?thesis
    by (auto simp: path_exists_def staged_temp split: option.splits)
qed

subsection \<open>The signature check\<close>

lemma validate_signature_eq:
  "validate_signature P s msg_file sig_file key_file
     = Inr (verification_succeeds P (files s key_file) (files s msg_file) (files s sig_file))"
  by (auto simp: validate_signature_def validate_signature_try_def verification_succeeds_def
      read_bytes_def and_then_def
      split: option.splits sum.splits exn.splits public_key.splits)

text \<open>
  C5. For every three paths, \<open>validate_signature\<close> returns a boolean and no exception
  leaves it: whatever the \<open>try\<close> block raises becomes \<open>False\<close>, a key that is neither an
  RSA nor an Ed25519 key gives \<open>False\<close>, and the result is \<open>True\<close> exactly when the RSA
  (PKCS#1 v1.5, SHA-256) or the Ed25519 verification succeeds.
\<close>

theorem validate_signature_fails_closed:
  "(\<exists>b. validate_signature P s msg_file sig_file key_file = Inr b)
   \<and> (validate_signature_try P s msg_file sig_file key_file = Inl e
        \<longrightarrow> validate_signature P s msg_file sig_file key_file = Inr False)
   \<and> (read_bytes s key_file = Inr key_bytes
        \<and> load_pem_public_key P key_bytes = Inr OtherPublicKey
        \<longrightarrow> validate_signature P s msg_file sig_file key_file = Inr False)
   \<and> (validate_signature P s msg_file sig_file key_file = Inr True
        \<longleftrightarrow> verification_succeeds P (files s key_file) (files s msg_file) (files s sig_file))"
proof (intro conjI impI)
  show "\<exists>b. validate_signature P s msg_file sig_file key_file = Inr b"
    by (simp add: validate_signature_eq)
  show "validate_signature P s msg_file sig_file key_file = Inr False"
    if "validate_signature_try P s msg_file sig_file key_file = Inl e"
    using that by (simp add: validate_signature_def split: exn.splits)
  show "validate_signature P s msg_file sig_file key_file = Inr False"
    if "read_bytes s key_file = Inr key_bytes
        \<and> load_pem_public_key P key_bytes = Inr OtherPublicKey"
    using that
    by (auto simp: validate_signature_eq verification_succeeds_def read_bytes_def
        split: option.splits)
  show "validate_signature P s msg_file sig_file key_file = Inr True
        \<longleftrightarrow> verification_succeeds P (files s key_file) (files s msg_file) (files s sig_file)"
    by (simp add: validate_signature_eq)
qed

subsection \<open>Evaluation on the concrete platform\<close>

lemma demo_simps:
  "sha256_hexdigest demo_platform = map of_char"
  "decode demo_platform = (\<lambda>b. Inr (map of_char b))"
  "extractall demo_platform = demo_extractall"
  "load_pem_public_key demo_platform = demo_load_pem"
  "rsa_verify_pkcs1v15_sha256 demo_platform = demo_verify"
  "ed25519_verify demo_platform = demo_verify"
  "new_file_mode demo_platform = 420"
  by (simp_all add: demo_platform_def)

lemma tampered_members_simps:
  "tampered_members ''kaonic-commd'' = Some ''new''"
  "tampered_members ''kaonic-commd.sha256'' = Some (''old'' @ [CHR 0x0A])"
  "tampered_members ''kaonic-commd.version'' = Some ''v2''"
  "tampered_members ''kaonic-commd.sig'' = Some ''sig:new''"
  by (simp_all add: tampered_members_def demo_members_def)

lemma forged_members_simps:
  "forged_members ''kaonic-commd'' = Some ''new''"
  "forged_members ''kaonic-commd.sha256'' = Some (''new'' @ [CHR 0x0A])"
  "forged_members ''kaonic-commd.version'' = Some ''v2''"
  "forged_members ''kaonic-commd.sig'' = Some ''sig:old''"
  by (simp_all add: forged_members_def demo_members_def)

lemma good_members_simps:
  "good_members ''kaonic-commd'' = Some ''new''"
  "good_members ''kaonic-commd.sha256'' = Some (''new'' @ [CHR 0x0A])"
  "good_members ''kaonic-commd.version'' = Some ''v2''"
  "good_members ''kaonic-commd.sig'' = Some ''sig:new''"
  by (simp_all add: good_members_def demo_members_def)

lemma demo_request_simps:
  "files_file (upload_request data) = Some (zip_upload data)"
  "content_type (zip_upload data) = ''application/x-zip-compressed''"
  "stream (zip_upload data) = data"
  by (simp_all add: upload_request_def zip_upload_def)

lemma demo_extractall_simps:
  "extractall demo_platform ''good'' = Inr good_members"
  "extractall demo_platform ''tampered'' = Inr tampered_members"
  "extractall demo_platform ''forged'' = Inr forged_members"
  by (simp_all add: demo_simps demo_extractall_def)

lemma demo_good_gate:
  "extractall demo_platform (stream (zip_upload ''good'')) = Inr good_members"
  by (simp add: demo_request_simps demo_extractall_simps)

lemma demo_device_key:
  "path_exists committed_device VERIFY_KEY_PATH"
  "path_exists fresh_device VERIFY_KEY_PATH"
  "files committed_device VERIFY_KEY_PATH = Some \<lparr>content = ''rsa'', st_mode = 420\<rparr>"
  "files fresh_device VERIFY_KEY_PATH = Some \<lparr>content = ''rsa'', st_mode = 420\<rparr>"
  by (simp_all add: path_exists_def committed_device_def fresh_device_def)

lemma demo_decode_digest:
  "decode demo_platform (''new'' @ [CHR 0x0A]) = Inr [110, 101, 119, 10]"
  "decode demo_platform (''old'' @ [CHR 0x0A]) = Inr [111, 108, 100, 10]"
  "strip [110, 101, 119, 10] = sha256_hexdigest demo_platform ''new''"
  "strip [111, 108, 100, 10] \<noteq> sha256_hexdigest demo_platform ''new''"
  by (simp_all add: demo_simps strip_def isspace_def)

lemma demo_signature_forged:
  "validate_signature demo_platform
     (staged demo_platform (zip_upload data) forged_members committed_device)
     app_path sig_path VERIFY_KEY_PATH = Inr False"
  by (simp add: validate_signature_eq verification_succeeds_def staged_temp app_path_def
      sig_path_def forged_members_simps demo_device_key demo_simps demo_load_pem_def
      demo_verify_def)

lemma demo_signature_good:
  "validate_signature demo_platform
     (staged demo_platform (zip_upload data) good_members committed_device)
     app_path sig_path VERIFY_KEY_PATH = Inr True"
  "validate_signature demo_platform
     (staged demo_platform (zip_upload data) good_members fresh_device)
     app_path sig_path VERIFY_KEY_PATH = Inr True"
  by (simp_all add: validate_signature_eq verification_succeeds_def staged_temp app_path_def
      sig_path_def good_members_simps demo_device_key demo_simps demo_load_pem_def
      demo_verify_def)

lemma never_active_never: "\<forall>w. \<not> never_active w"
  by (simp add: never_active_def)

lemma always_active_always: "\<forall>w. always_active w"
  by (simp add: always_active_def)

theorem digest_independent_of_chunking_witness:
  "(0::nat) < 3
   \<and> hexdigest demo_platform (read_loop 3 ''kaonic-commd'' hashlib_sha256)
       = sha256_hexdigest demo_platform ''kaonic-commd''
   \<and> sha256sum_open demo_platform ''kaonic-commd'' = get_file_hash demo_platform ''kaonic-commd''"
  using digest_independent_of_chunking [of demo_platform "''kaonic-commd''" 3] by simp

theorem validate_signature_fails_closed_witness:
  "validate_signature_try demo_platform
     (staged demo_platform (zip_upload ''forged'') forged_members committed_device)
     app_path sig_path VERIFY_KEY_PATH = Inl InvalidSignature
   \<and> validate_signature demo_platform
     (staged demo_platform (zip_upload ''forged'') forged_members committed_device)
     app_path sig_path VERIFY_KEY_PATH = Inr False"
proof -
  have "validate_signature_try demo_platform
     (staged demo_platform (zip_upload ''forged'') forged_members committed_device)
     app_path sig_path VERIFY_KEY_PATH = Inl InvalidSignature"
    by (simp add: validate_signature_try_def read_bytes_def staged_temp app_path_def
      sig_path_def forged_members_simps demo_device_key demo_simps demo_load_pem_def
      demo_verify_def)
  then show ?thesis
    using validate_signature_fails_closed [where P = demo_platform
        and s = "staged demo_platform (zip_upload ''forged'') forged_members committed_device"
        and msg_file = app_path and sig_file = sig_path and key_file = VERIFY_KEY_PATH
        and e = InvalidSignature]
    by simp
qed

subsection \<open>The verification gate\<close>

lemma upload_ota_gate_rejects:
  assumes "files_file req = Some file"
    and "content_type file = ''application/x-zip-compressed''"
    and "path_exists s VERIFY_KEY_PATH"
    and "extractall P (stream file) = Inr members"
    and "members ''kaonic-commd'' = Some bin"
    and "members ''kaonic-commd.sha256'' = Some digest"
    and "members ''kaonic-commd.version'' = Some version"
    and "members ''kaonic-commd.sig'' = Some signature"
    and "decode P digest = Inr claimed"
    and "strip claimed \<noteq> sha256_hexdigest P bin
         \<or> validate_signature P (staged P file members s) app_path sig_path VERIFY_KEY_PATH
             = Inr False"
  shows "upload_ota P sv req s = Inr (Json ''SHA256 hash mismatch'' 400, without_temp s)"
proof -
  note m = staged_members [OF assms(5-8)]
  have "upload_ota_in_temp P sv file (without_temp s)
          = Inr (Json ''SHA256 hash mismatch'' 400, staged P file members s)"
    using assms(4,9,10) m(1-3)
    by (auto simp: upload_ota_in_temp_def Let_def staged_def [symmetric])
  then show ?thesis
    using assms(1-3) by (simp add: upload_ota_def without_temp_staged)
qed

text \<open>
  C1. A package whose claimed digest differs from the digest of its binary, or whose
  signature check returns false, is answered with the rejection and leaves the Active
  Binary, the Backup Binary, the Recorded Digest, the Recorded Version, the key and the
  metadata directory as they were; the trace is unchanged, so the service was neither
  stopped nor started and no persistent file was written.
\<close>

theorem rejected_package_changes_nothing:
  assumes "files_file req = Some file"
    and "content_type file = ''application/x-zip-compressed''"
    and "path_exists s VERIFY_KEY_PATH"
    and "extractall P (stream file) = Inr members"
    and "members ''kaonic-commd'' = Some bin"
    and "members ''kaonic-commd.sha256'' = Some digest"
    and "members ''kaonic-commd.version'' = Some version"
    and "members ''kaonic-commd.sig'' = Some signature"
    and "decode P digest = Inr claimed"
    and "strip claimed \<noteq> sha256_hexdigest P bin
         \<or> validate_signature P (staged P file members s) app_path sig_path VERIFY_KEY_PATH
             = Inr False"
  shows "\<exists>s'. upload_ota P sv req s = Inr (Json ''SHA256 hash mismatch'' 400, s')
    \<and> files s' APP_PATH = files s APP_PATH
    \<and> files s' BACKUP_PATH = files s BACKUP_PATH
    \<and> files s' HASH_PATH = files s HASH_PATH
    \<and> files s' VERSION_PATH = files s VERSION_PATH
    \<and> files s' VERIFY_KEY_PATH = files s VERIFY_KEY_PATH
    \<and> metadata_dir s' = metadata_dir s
    \<and> trace s' = trace s"
  using upload_ota_gate_rejects [OF assms] by simp

theorem rejected_package_changes_nothing_witness:
  "strip [111, 108, 100, 10] \<noteq> sha256_hexdigest demo_platform ''new''
   \<and> (\<exists>s'. upload_ota demo_platform always_active (upload_request ''tampered'')
                committed_device
              = Inr (Json ''SHA256 hash mismatch'' 400, s')
        \<and> files s' APP_PATH = files committed_device APP_PATH
        \<and> files s' BACKUP_PATH = files committed_device BACKUP_PATH
        \<and> files s' HASH_PATH = files committed_device HASH_PATH
        \<and> files s' VERSION_PATH = files committed_device VERSION_PATH
        \<and> files s' VERIFY_KEY_PATH = files committed_device VERIFY_KEY_PATH
        \<and> metadata_dir s' = metadata_dir committed_device
        \<and> trace s' = trace committed_device)
   \<and> validate_signature demo_platform
        (staged demo_platform (zip_upload ''forged'') forged_members committed_device)
        app_path sig_path VERIFY_KEY_PATH = Inr False
   \<and> (\<exists>s'. upload_ota demo_platform always_active (upload_request ''forged'')
                committed_device
              = Inr (Json ''SHA256 hash mismatch'' 400, s')
        \<and> files s' APP_PATH = files committed_device APP_PATH
        \<and> files s' BACKUP_PATH = files committed_device BACKUP_PATH
        \<and> files s' HASH_PATH = files committed_device HASH_PATH
        \<and> files s' VERSION_PATH = files committed_device VERSION_PATH
        \<and> files s' VERIFY_KEY_PATH = files committed_device VERIFY_KEY_PATH
        \<and> metadata_dir s' = metadata_dir committed_device
        \<and> trace s' = trace committed_device)"
proof -
  note a = demo_request_simps(1,2) demo_device_key(1)
  have x1: "extractall demo_platform (stream (zip_upload ''tampered'')) = Inr tampered_members"
    and x2: "extractall demo_platform (stream (zip_upload ''forged'')) = Inr forged_members"
    by (simp_all add: demo_request_simps demo_extractall_simps)
  show ?thesis
    by (intro conjI demo_decode_digest(4) demo_signature_forged
        rejected_package_changes_nothing [OF a x1 tampered_members_simps
          demo_decode_digest(2) disjI1 [OF demo_decode_digest(4)]]
        rejected_package_changes_nothing [OF a x2 forged_members_simps
          demo_decode_digest(1) disjI2 [OF demo_signature_forged]])
qed

text \<open>
  C8. A package that reaches the gate and fails the digest comparison and a package that
  passes it and fails the signature check get the same response: the same message and the
  same status code.
\<close>

theorem both_failures_same_response:
  assumes "files_file req1 = Some file1"
    and "content_type file1 = ''application/x-zip-compressed''"
    and "path_exists s1 VERIFY_KEY_PATH"
    and "extractall P (stream file1) = Inr members1"
    and "members1 ''kaonic-commd'' = Some bin1"
    and "members1 ''kaonic-commd.sha256'' = Some digest1"
    and "members1 ''kaonic-commd.version'' = Some version1"
    and "members1 ''kaonic-commd.sig'' = Some signature1"
    and "decode P digest1 = Inr claimed1"
    and mismatch: "strip claimed1 \<noteq> sha256_hexdigest P bin1"
    and "files_file req2 = Some file2"
    and "content_type file2 = ''application/x-zip-compressed''"
    and "path_exists s2 VERIFY_KEY_PATH"
    and "extractall P (stream file2) = Inr members2"
    and "members2 ''kaonic-commd'' = Some bin2"
    and "members2 ''kaonic-commd.sha256'' = Some digest2"
    and "members2 ''kaonic-commd.version'' = Some version2"
    and "members2 ''kaonic-commd.sig'' = Some signature2"
    and "decode P digest2 = Inr claimed2"
    and "strip claimed2 = sha256_hexdigest P bin2"
    and invalid: "validate_signature P (staged P file2 members2 s2) app_path sig_path
                    VERIFY_KEY_PATH = Inr False"
  shows "\<exists>t1 t2. upload_ota P sv1 req1 s1 = Inr (Json ''SHA256 hash mismatch'' 400, t1)
               \<and> upload_ota P sv2 req2 s2 = Inr (Json ''SHA256 hash mismatch'' 400, t2)"
proof -
  have "upload_ota P sv1 req1 s1 = Inr (Json ''SHA256 hash mismatch'' 400, without_temp s1)"
    using mismatch by (intro upload_ota_gate_rejects [OF assms(1-9)]) simp
  moreover
  have "upload_ota P sv2 req2 s2 = Inr (Json ''SHA256 hash mismatch'' 400, without_temp s2)"
    using invalid by (intro upload_ota_gate_rejects [OF assms(11-19)]) simp
  ultimately show ?thesis by blast
qed

theorem both_failures_same_response_witness:
  "strip [111, 108, 100, 10] \<noteq> sha256_hexdigest demo_platform ''new''
   \<and> validate_signature demo_platform
        (staged demo_platform (zip_upload ''forged'') forged_members committed_device)
        app_path sig_path VERIFY_KEY_PATH = Inr False
   \<and> (\<exists>t1 t2.
        upload_ota demo_platform always_active (upload_request ''tampered'') committed_device
          = Inr (Json ''SHA256 hash mismatch'' 400, t1)
        \<and> upload_ota demo_platform never_active (upload_request ''forged'') committed_device
          = Inr (Json ''SHA256 hash mismatch'' 400, t2))"
proof -
  note a = demo_request_simps(1,2) demo_device_key(1)
  have x1: "extractall demo_platform (stream (zip_upload ''tampered'')) = Inr tampered_members"
    and x2: "extractall demo_platform (stream (zip_upload ''forged'')) = Inr forged_members"
    by (simp_all add: demo_request_simps demo_extractall_simps)
  show ?thesis
    using both_failures_same_response [OF a x1 tampered_members_simps demo_decode_digest(2,4)
        a x2 forged_members_simps demo_decode_digest(1,3) demo_signature_forged]
      demo_decode_digest(4) demo_signature_forged
    by simp
qed

subsection \<open>The health probe\<close>

lemma health_loop_frame [simp]:
  "files (health_loop sv n s) = files s"
  "metadata_dir (health_loop sv n s) = metadata_dir s"
  by (induction n arbitrary: s; simp add: is_kaonic_running_def sleep_def Let_def)+

lemma health_loop_never:
  assumes "\<And>w. \<not> sv w"
  shows "health_loop sv (Suc n) s = s\<lparr>trace := trace s @ [SystemctlIsActive False]\<rparr>"
  using assms by (simp add: is_kaonic_running_def Let_def)

lemma health_loop_always:
  assumes "\<And>w. sv w"
  shows "health_loop sv n s
    = s\<lparr>trace := trace s @ concat (replicate n [SystemctlIsActive True, Sleep 1])\<rparr>"
  using assms by (induction n arbitrary: s) (simp_all add: is_kaonic_running_def sleep_def Let_def)

lemma probe_healthy_never:
  assumes "\<And>w. \<not> sv w"
  shows "probe_healthy sv s
    = (False, s\<lparr>trace := trace s @ [SystemctlIsActive False, SystemctlIsActive False]\<rparr>)"
proof -
  have "health_loop sv 10 s = health_loop sv (Suc 9) s" by simp
  then show ?thesis
    using assms
    by (simp only: probe_healthy_def health_loop_never [OF assms])
      (simp add: is_kaonic_running_def Let_def)
qed

lemma probe_healthy_always:
  assumes "\<And>w. sv w"
  shows "probe_healthy sv s
    = (True, s\<lparr>trace := trace s @ concat (replicate 10 [SystemctlIsActive True, Sleep 1])
                   @ [SystemctlIsActive True]\<rparr>)"
  using assms by (simp add: probe_healthy_def health_loop_always is_kaonic_running_def Let_def)

lemma health_loop_checks:
  "\<exists>evs. health_loop sv n s = s\<lparr>trace := trace s @ evs\<rparr> \<and> list_all is_poll evs
     \<and> length (filter (\<lambda>e. e = SystemctlIsActive True \<or> e = SystemctlIsActive False) evs) \<le> n"
proof (induction n arbitrary: s)
  case 0
  show ?case by (intro exI [of _ "[]"]) simp
next
  case (Suc n)
  show ?case
  proof (cases "sv s")
    case True
    let ?s1 = "sleep 1 (snd (is_kaonic_running sv s))"
    from Suc.IH [of ?s1] obtain evs where
      "health_loop sv n ?s1 = ?s1\<lparr>trace := trace ?s1 @ evs\<rparr>" "list_all is_poll evs"
      "length (filter (\<lambda>e. e = SystemctlIsActive True \<or> e = SystemctlIsActive False) evs) \<le> n"
      by blast
    with True show ?thesis
      by (intro exI [of _ "[SystemctlIsActive True, Sleep 1] @ evs"])
        (simp add: is_kaonic_running_def sleep_def Let_def)
  next
    case False
    then show ?thesis
      by (intro exI [of _ "[SystemctlIsActive False]"]) (simp add: is_kaonic_running_def Let_def)
  qed
qed

lemma probe_healthy_effect:
  "\<exists>evs. probe_healthy sv s
            = (fst (probe_healthy sv s),
               s\<lparr>trace := trace s @ evs @ [SystemctlIsActive (fst (probe_healthy sv s))]\<rparr>)
     \<and> list_all is_poll evs
     \<and> length (filter (\<lambda>e. e = SystemctlIsActive True \<or> e = SystemctlIsActive False) evs)
         \<le> 10"
proof -
  obtain evs where "health_loop sv 10 s = s\<lparr>trace := trace s @ evs\<rparr>" "list_all is_poll evs"
    "length (filter (\<lambda>e. e = SystemctlIsActive True \<or> e = SystemctlIsActive False) evs) \<le> 10"
    using health_loop_checks by blast
  then show ?thesis
    by (intro exI [of _ evs]) (simp add: probe_healthy_def is_kaonic_running_def Let_def)
qed

lemma polls_write_nothing:
  "list_all is_poll evs \<Longrightarrow> filter writes_recorded evs = []"
  by (induction evs) (auto elim: is_poll.elims)

text \<open>
  C3, as the code has it. The loop makes at most 10 checks, sleeps one second after each
  check that finds the service active and ends at the first check that finds it not
  active; one more check after the loop is the verdict. So the probe says healthy when
  every check finds the service active (11 checks, 10 sleeps), and not healthy when none
  does (2 checks, no sleep).
\<close>

theorem probe_healthy_is_the_check_after_the_loop:
  "fst (probe_healthy sv s) = sv (health_loop sv 10 s)
   \<and> (\<not> sv s \<longrightarrow> health_loop sv (Suc n) s = s\<lparr>trace := trace s @ [SystemctlIsActive False]\<rparr>)
   \<and> (sv s \<longrightarrow> health_loop sv (Suc n) s
          = health_loop sv n (s\<lparr>trace := trace s @ [SystemctlIsActive True, Sleep 1]\<rparr>))
   \<and> (\<exists>evs. snd (probe_healthy sv s)
               = s\<lparr>trace := trace s @ evs @ [SystemctlIsActive (fst (probe_healthy sv s))]\<rparr>
          \<and> list_all is_poll evs
          \<and> length (filter (\<lambda>e. e = SystemctlIsActive True \<or> e = SystemctlIsActive False) evs)
              \<le> 10)
   \<and> ((\<forall>w. sv w) \<longrightarrow> probe_healthy sv s
          = (True, s\<lparr>trace := trace s @ concat (replicate 10 [SystemctlIsActive True, Sleep 1])
                         @ [SystemctlIsActive True]\<rparr>))
   \<and> ((\<forall>w. \<not> sv w) \<longrightarrow> probe_healthy sv s
          = (False, s\<lparr>trace := trace s @ [SystemctlIsActive False, SystemctlIsActive False]\<rparr>))"
proof (intro conjI impI)
  show "fst (probe_healthy sv s) = sv (health_loop sv 10 s)"
    by (simp add: probe_healthy_def is_kaonic_running_def Let_def)
  show "health_loop sv (Suc n) s = s\<lparr>trace := trace s @ [SystemctlIsActive False]\<rparr>"
    if "\<not> sv s"
    using that by (simp add: is_kaonic_running_def Let_def)
  show "health_loop sv (Suc n) s
          = health_loop sv n (s\<lparr>trace := trace s @ [SystemctlIsActive True, Sleep 1]\<rparr>)"
    if "sv s"
    using that by (simp add: is_kaonic_running_def sleep_def Let_def)
  show "\<exists>evs. snd (probe_healthy sv s)
               = s\<lparr>trace := trace s @ evs @ [SystemctlIsActive (fst (probe_healthy sv s))]\<rparr>
          \<and> list_all is_poll evs
          \<and> length (filter (\<lambda>e. e = SystemctlIsActive True \<or> e = SystemctlIsActive False) evs)
              \<le> 10"
    using probe_healthy_effect [of sv s] by (metis snd_conv)
  show "probe_healthy sv s
          = (True, s\<lparr>trace := trace s @ concat (replicate 10 [SystemctlIsActive True, Sleep 1])
                         @ [SystemctlIsActive True]\<rparr>)"
    if "\<forall>w. sv w"
    using that by (intro probe_healthy_always) simp
  show "probe_healthy sv s
          = (False, s\<lparr>trace := trace s @ [SystemctlIsActive False, SystemctlIsActive False]\<rparr>)"
    if "\<forall>w. \<not> sv w"
    using that by (intro probe_healthy_never) simp
qed

theorem probe_healthy_is_the_check_after_the_loop_witness:
  "(\<forall>w. \<not> never_active w)
   \<and> probe_healthy never_active fresh_device
       = (False, fresh_device\<lparr>trace := trace fresh_device
            @ [SystemctlIsActive False, SystemctlIsActive False]\<rparr>)
   \<and> (\<forall>w. always_active w)
   \<and> fst (probe_healthy always_active fresh_device)"
  using probe_healthy_is_the_check_after_the_loop [of never_active fresh_device 0]
    probe_healthy_is_the_check_after_the_loop [of always_active fresh_device 0]
    never_active_never always_active_always
  by simp

text \<open>
  C3, as the specification states it, fails: with a service that is active at the first
  check only, the first check reports active, the probe of the specification would say
  healthy, and the probe of the code says not healthy, after a second and a third check.
\<close>

theorem probe_healthy_not_true_at_first_success:
  "fst (is_kaonic_running active_at_first_check_only fresh_device)
   \<and> fst (probeHealthy_spec active_at_first_check_only 10 fresh_device)
   \<and> \<not> fst (probe_healthy active_at_first_check_only fresh_device)
   \<and> trace (snd (probe_healthy active_at_first_check_only fresh_device))
       = [SystemctlIsActive True, Sleep 1, SystemctlIsActive False, SystemctlIsActive False]"
  by (simp add: probe_healthy_def eval_nat_numeral is_kaonic_running_def sleep_def Let_def
      active_at_first_check_only_def fresh_device_def)

subsection \<open>Installation and rollback\<close>

lemma backup_current_effect:
  "backup_current s =
     Inr (s\<lparr>files := (files s)(BACKUP_PATH := files s APP_PATH),
            trace := trace s @ (if path_exists s BACKUP_PATH then [Unlink BACKUP_PATH] else [])
                             @ (if path_exists s APP_PATH then [Copy2 APP_PATH BACKUP_PATH] else [])\<rparr>)"
  by (cases "files s BACKUP_PATH"; cases "files s APP_PATH")
    (simp_all add: backup_current_def path_exists_def unlink_def copy2_def fun_upd_idem)

lemma restore_backup_effect:
  "restore_backup s =
     Inr (case files s BACKUP_PATH of
            None \<Rightarrow> s
          | Some b \<Rightarrow> s\<lparr>files := (files s)(APP_PATH \<mapsto> b),
                         trace := trace s @ [Copy2 BACKUP_PATH APP_PATH]\<rparr>)"
  by (cases "files s BACKUP_PATH") (simp_all add: restore_backup_def path_exists_def copy2_def)

lemma install_candidate_effect:
  assumes "files s app_path = Some c"
  shows "install_candidate s =
     Inr (s\<lparr>files := (files s)
              (BACKUP_PATH := files s APP_PATH,
               APP_PATH \<mapsto> c\<lparr>st_mode := st_mode c OR S_IXUSR OR S_IXGRP OR S_IXOTH\<rparr>),
            trace := trace s @ [SystemctlStop]
              @ (if path_exists s BACKUP_PATH then [Unlink BACKUP_PATH] else [])
              @ (if path_exists s APP_PATH then [Copy2 APP_PATH BACKUP_PATH] else [])
              @ [Copy2 app_path APP_PATH,
                 Chmod APP_PATH (st_mode c OR S_IXUSR OR S_IXGRP OR S_IXOTH),
                 SystemctlStart]\<rparr>)"
  using assms
  by (simp add: install_candidate_def backup_current_effect stop_kaonic_commd_def
      path_exists_def copy2_def stat_st_mode_def chmod_def launch_kaonic_commd_def app_path_def)

lemma upload_ota_gate_passes:
  assumes "files_file req = Some file"
    and "content_type file = ''application/x-zip-compressed''"
    and "path_exists s VERIFY_KEY_PATH"
    and "extractall P (stream file) = Inr members"
    and "members ''kaonic-commd'' = Some bin"
    and "members ''kaonic-commd.sha256'' = Some digest"
    and "members ''kaonic-commd.version'' = Some version"
    and "members ''kaonic-commd.sig'' = Some signature"
    and "decode P digest = Inr claimed"
    and "strip claimed = sha256_hexdigest P bin"
    and "validate_signature P (staged P file members s) app_path sig_path VERIFY_KEY_PATH
           = Inr True"
  shows "upload_ota P sv req s
    = and_then (upload_ota_install sv (staged P file members s)) (\<lambda>(resp, s').
        Inr (resp, without_temp s'))"
proof -
  note m = staged_members [OF assms(5-8)]
  have "upload_ota_in_temp P sv file (without_temp s)
          = upload_ota_install sv (staged P file members s)"
    using assms(4,9,10,11) m(1-3)
    by (simp add: upload_ota_in_temp_def Let_def staged_def [symmetric])
  then show ?thesis
    using assms(1-3) by (simp add: upload_ota_def)
qed

text \<open>
  C2. On a device whose Active Binary is \<open>G\<close>, a package that passes both checks and whose
  service is never reported active ends with the Active Binary equal to \<open>G\<close> again (copied
  back from the Backup Binary, which holds \<open>G\<close>), the Recorded Digest and the Recorded
  Version untouched, the service started after the restore, and the rollback failure as
  response.
\<close>

theorem rollback_restores_committed_binary:
  assumes "files_file req = Some file"
    and "content_type file = ''application/x-zip-compressed''"
    and "path_exists s VERIFY_KEY_PATH"
    and "extractall P (stream file) = Inr members"
    and "members ''kaonic-commd'' = Some bin"
    and "members ''kaonic-commd.sha256'' = Some digest"
    and "members ''kaonic-commd.version'' = Some version"
    and "members ''kaonic-commd.sig'' = Some signature"
    and "decode P digest = Inr claimed"
    and "strip claimed = sha256_hexdigest P bin"
    and "validate_signature P (staged P file members s) app_path sig_path VERIFY_KEY_PATH
           = Inr True"
    and committed: "files s APP_PATH = Some G"
    and unhealthy: "\<forall>w. \<not> sv w"
  shows "\<exists>s'. upload_ota P sv req s
                = Inr (Json ''Failed to start new app, rollback done'' 500, s')
    \<and> files s' APP_PATH = Some G
    \<and> files s' BACKUP_PATH = Some G
    \<and> files s' HASH_PATH = files s HASH_PATH
    \<and> files s' VERSION_PATH = files s VERSION_PATH
    \<and> trace s' = trace s @ [SystemctlStop]
         @ (if path_exists s BACKUP_PATH then [Unlink BACKUP_PATH] else [])
         @ [Copy2 APP_PATH BACKUP_PATH, Copy2 app_path APP_PATH,
            Chmod APP_PATH (new_file_mode P OR S_IXUSR OR S_IXGRP OR S_IXOTH), SystemctlStart,
            SystemctlIsActive False, SystemctlIsActive False,
            Copy2 BACKUP_PATH APP_PATH, SystemctlStart]"
proof -
  note m = staged_members [OF assms(5-8)]
  have never: "\<And>w. \<not> sv w" using unhealthy by simp
  show ?thesis
    using committed
    by (simp add: upload_ota_gate_passes [OF assms(1-11)] upload_ota_install_def
        install_candidate_effect [OF m(4)] probe_healthy_never [OF never]
        restore_backup_effect launch_kaonic_commd_def path_exists_def)
qed

theorem rollback_restores_committed_binary_witness:
  "files committed_device APP_PATH = Some old_binary
   \<and> (\<forall>w. \<not> never_active w)
   \<and> (\<exists>s'. upload_ota demo_platform never_active (upload_request ''good'') committed_device
                = Inr (Json ''Failed to start new app, rollback done'' 500, s')
    \<and> files s' APP_PATH = Some old_binary
    \<and> files s' BACKUP_PATH = Some old_binary
    \<and> files s' HASH_PATH = files committed_device HASH_PATH
    \<and> files s' VERSION_PATH = files committed_device VERSION_PATH
    \<and> trace s' = trace committed_device @ [SystemctlStop]
         @ (if path_exists committed_device BACKUP_PATH then [Unlink BACKUP_PATH] else [])
         @ [Copy2 APP_PATH BACKUP_PATH, Copy2 app_path APP_PATH,
            Chmod APP_PATH (new_file_mode demo_platform OR S_IXUSR OR S_IXGRP OR S_IXOTH),
            SystemctlStart, SystemctlIsActive False, SystemctlIsActive False,
            Copy2 BACKUP_PATH APP_PATH, SystemctlStart])"
proof -
  have g: "files committed_device APP_PATH = Some old_binary"
    by (simp add: committed_device_def)
  show ?thesis
    by (intro conjI g never_active_never
        rollback_restores_committed_binary [OF demo_request_simps(1,2) demo_device_key(1)
          demo_good_gate good_members_simps demo_decode_digest(1,3) demo_signature_good(1) g
          never_active_never])
qed



subsection \<open>When the Recorded Digest and the Recorded Version are written\<close>

lemma upload_ota_install_effect:
  assumes "files s2 app_path = Some c"
    and "files s2 hash_path = Some h"
    and "files s2 version_path = Some v"
  shows "\<exists>s3 pre t. install_candidate s2 = Inr s3
      \<and> filter writes_recorded pre = []
      \<and> (if fst (probe_healthy sv s3)
          then upload_ota_install sv s2 = Inr (Json ''Update successful'' 200, t)
             \<and> trace t = trace s2 @ pre @ [SystemctlIsActive True, Copy2 hash_path HASH_PATH,
                                              Copy2 version_path VERSION_PATH]
             \<and> files t HASH_PATH = Some h \<and> files t VERSION_PATH = Some v
          else upload_ota_install sv s2
                 = Inr (Json ''Failed to start new app, rollback done'' 500, t)
             \<and> trace t = trace s2 @ pre
             \<and> files t HASH_PATH = files s2 HASH_PATH
             \<and> files t VERSION_PATH = files s2 VERSION_PATH)"
proof -
  define m where "m = st_mode c OR S_IXUSR OR S_IXGRP OR S_IXOTH"
  define inst where "inst = [SystemctlStop]
              @ (if path_exists s2 BACKUP_PATH then [Unlink BACKUP_PATH] else [])
              @ (if path_exists s2 APP_PATH then [Copy2 APP_PATH BACKUP_PATH] else [])
              @ [Copy2 app_path APP_PATH, Chmod APP_PATH m, SystemctlStart]"
  define s3 where "s3 = s2\<lparr>files := (files s2)
              (BACKUP_PATH := files s2 APP_PATH, APP_PATH \<mapsto> c\<lparr>st_mode := m\<rparr>),
            trace := trace s2 @ inst\<rparr>"
  have inst: "install_candidate s2 = Inr s3"
    by (simp add: install_candidate_effect [OF assms(1)] s3_def inst_def m_def)
  have quiet: "filter writes_recorded inst = []"
    by (simp add: inst_def)
  obtain evs where probe: "probe_healthy sv s3
       = (fst (probe_healthy sv s3),
          s3\<lparr>trace := trace s3 @ evs @ [SystemctlIsActive (fst (probe_healthy sv s3))]\<rparr>)"
    and polls: "list_all is_poll evs"
    using probe_healthy_effect by blast
  have f3: "files s3 hash_path = Some h" "files s3 version_path = Some v"
    "files s3 HASH_PATH = files s2 HASH_PATH" "files s3 VERSION_PATH = files s2 VERSION_PATH"
    using assms(2,3) by (simp_all add: s3_def hash_path_def version_path_def)
  show ?thesis
  proof (cases "fst (probe_healthy sv s3)")
    case True
    let ?t = "s3\<lparr>files := (files s3)(HASH_PATH \<mapsto> h, VERSION_PATH \<mapsto> v),
                 trace := trace s3 @ evs @ [SystemctlIsActive True, Copy2 hash_path HASH_PATH,
                                             Copy2 version_path VERSION_PATH]\<rparr>"
    have "upload_ota_install sv s2 = Inr (Json ''Update successful'' 200, ?t)"
      using True f3
      by (simp add: upload_ota_install_def inst) (subst probe, simp add: True copy2_def hash_path_def version_path_def)
    then show ?thesis
      using True inst quiet polls_write_nothing [OF polls]
      by (intro exI [of _ s3] exI [of _ "inst @ evs"] exI [of _ ?t]) (simp add: s3_def)
  next
    case False
    obtain t where t: "restore_backup
        (s3\<lparr>trace := trace s3 @ evs @ [SystemctlIsActive False]\<rparr>) = Inr t"
      and tt: "trace (launch_kaonic_commd t) = trace s3 @ evs @ [SystemctlIsActive False]
           @ (if path_exists s3 BACKUP_PATH then [Copy2 BACKUP_PATH APP_PATH] else [])
           @ [SystemctlStart]"
      and tf: "files t HASH_PATH = files s3 HASH_PATH" "files t VERSION_PATH = files s3 VERSION_PATH"
      by (cases "files s3 BACKUP_PATH")
        (simp_all add: restore_backup_effect launch_kaonic_commd_def path_exists_def)
    have "upload_ota_install sv s2
            = Inr (Json ''Failed to start new app, rollback done'' 500, launch_kaonic_commd t)"
      using False
      by (simp add: upload_ota_install_def inst) (subst probe, simp add: False t)
    then show ?thesis
      using False inst quiet polls_write_nothing [OF polls] tt tf f3
      by (intro exI [of _ s3] exI [of _ "inst @ evs @ [SystemctlIsActive False]
           @ (if path_exists s3 BACKUP_PATH then [Copy2 BACKUP_PATH APP_PATH] else [])
           @ [SystemctlStart]"] exI [of _ "launch_kaonic_commd t"])
        (simp add: s3_def launch_kaonic_commd_def)
  qed
qed

lemma upload_ota_in_temp_cases:
  assumes "upload_ota_in_temp P sv file (without_temp s) = Inr (resp, t)"
  shows "(resp \<noteq> Json ''Update successful'' 200 \<and> without_temp t = without_temp s)
    \<or> (\<exists>members. extractall P (stream file) = Inr members
          \<and> first_missing (staged P file members s) required_files = None
          \<and> upload_ota_install sv (staged P file members s) = Inr (resp, t))"
  using assms
  by (auto simp: upload_ota_in_temp_def Let_def staged_def [symmetric] without_temp_staged
      without_temp_save and_then_def split: sum.splits option.splits if_splits)

lemma events_since_append [simp]:
  "trace s' = trace s @ evs \<Longrightarrow> events_since s s' = evs"
  by (simp add: events_since_def)

lemma upload_ota_recorded:
  assumes run: "upload_ota P sv req s = Inr (resp, s')"
  shows "trace s' = trace s @ events_since s s'
    \<and> (resp \<noteq> Json ''Update successful'' 200 \<longrightarrow>
          files s' HASH_PATH = files s HASH_PATH
          \<and> files s' VERSION_PATH = files s VERSION_PATH
          \<and> filter writes_recorded (events_since s s') = [])
    \<and> (resp = Json ''Update successful'' 200 \<longrightarrow>
          (\<exists>pre file members h v.
             events_since s s' = pre @ [SystemctlIsActive True, Copy2 hash_path HASH_PATH,
                                         Copy2 version_path VERSION_PATH]
             \<and> filter writes_recorded pre = []
             \<and> files_file req = Some file
             \<and> extractall P (stream file) = Inr members
             \<and> members ''kaonic-commd.sha256'' = Some h
             \<and> members ''kaonic-commd.version'' = Some v
             \<and> files s' HASH_PATH = Some \<lparr>content = h, st_mode = new_file_mode P\<rparr>
             \<and> files s' VERSION_PATH = Some \<lparr>content = v, st_mode = new_file_mode P\<rparr>))"
proof -
  consider (early) "s' = s" "resp \<noteq> Json ''Update successful'' 200"
    | (temp) upl t where "files_file req = Some upl"
        "upload_ota_in_temp P sv upl (without_temp s) = Inr (resp, t)" "s' = without_temp t"
    using run
    by (auto simp: upload_ota_def and_then_def split: option.splits if_splits sum.splits)
  then show ?thesis
  proof cases
    case early
    then show ?thesis by (simp add: events_since_def)
  next
    case temp
    from upload_ota_in_temp_cases [OF temp(2)] show ?thesis
    proof (elim disjE conjE exE)
      assume "resp \<noteq> Json ''Update successful'' 200" "without_temp t = without_temp s"
      then show ?thesis
        using temp(3) by (simp add: events_since_def)
    next
      fix members
      assume x: "extractall P (stream upl) = Inr members"
        and fm: "first_missing (staged P upl members s) required_files = None"
        and inst: "upload_ota_install sv (staged P upl members s) = Inr (resp, t)"
      from staged_required_present [OF fm] obtain bin h v where
        mem: "members ''kaonic-commd'' = Some bin" "members ''kaonic-commd.sha256'' = Some h"
          "members ''kaonic-commd.version'' = Some v"
        by blast
      let ?s2 = "staged P upl members s"
      have f: "files ?s2 app_path = Some \<lparr>content = bin, st_mode = new_file_mode P\<rparr>"
        "files ?s2 hash_path = Some \<lparr>content = h, st_mode = new_file_mode P\<rparr>"
        "files ?s2 version_path = Some \<lparr>content = v, st_mode = new_file_mode P\<rparr>"
        using mem by (simp_all add: staged_temp app_path_def hash_path_def version_path_def)
      from upload_ota_install_effect [OF f, of sv] obtain s3 pre u where
        q: "filter writes_recorded pre = []"
        and r: "if fst (probe_healthy sv s3)
          then upload_ota_install sv ?s2 = Inr (Json ''Update successful'' 200, u)
             \<and> trace u = trace ?s2 @ pre @ [SystemctlIsActive True, Copy2 hash_path HASH_PATH,
                                              Copy2 version_path VERSION_PATH]
             \<and> files u HASH_PATH = Some \<lparr>content = h, st_mode = new_file_mode P\<rparr>
             \<and> files u VERSION_PATH = Some \<lparr>content = v, st_mode = new_file_mode P\<rparr>
          else upload_ota_install sv ?s2
                 = Inr (Json ''Failed to start new app, rollback done'' 500, u)
             \<and> trace u = trace ?s2 @ pre
             \<and> files u HASH_PATH = files ?s2 HASH_PATH
             \<and> files u VERSION_PATH = files ?s2 VERSION_PATH"
        by blast
      show ?thesis
      proof (cases "fst (probe_healthy sv s3)")
        case True
        with r inst have "resp = Json ''Update successful'' 200" "t = u" by simp_all
        with r True q temp(1,3) x mem show ?thesis
          by (auto intro!: exI [of _ pre])
      next
        case False
        with r inst have "resp = Json ''Failed to start new app, rollback done'' 500" "t = u"
          by simp_all
        with r False q temp(3) show ?thesis
          by simp
      qed
    qed
  qed
qed

lemma upload_ota_commit_or_rollback:
  assumes "files_file req = Some file"
    and "content_type file = ''application/x-zip-compressed''"
    and "path_exists s VERIFY_KEY_PATH"
    and "extractall P (stream file) = Inr members"
    and "members ''kaonic-commd'' = Some bin"
    and "members ''kaonic-commd.sha256'' = Some digest"
    and "members ''kaonic-commd.version'' = Some version"
    and "members ''kaonic-commd.sig'' = Some signature"
    and "decode P digest = Inr claimed"
    and "strip claimed = sha256_hexdigest P bin"
    and "validate_signature P (staged P file members s) app_path sig_path VERIFY_KEY_PATH
           = Inr True"
  shows "\<exists>s3 t. install_candidate (staged P file members s) = Inr s3
      \<and> upload_ota P sv req s
          = Inr (if fst (probe_healthy sv s3) then Json ''Update successful'' 200
                 else Json ''Failed to start new app, rollback done'' 500, t)"
proof -
  note m = staged_members [OF assms(5-8)]
  have f: "files (staged P file members s) app_path
             = Some \<lparr>content = bin, st_mode = new_file_mode P\<rparr>"
    "files (staged P file members s) hash_path
       = Some \<lparr>content = digest, st_mode = new_file_mode P\<rparr>"
    "files (staged P file members s) version_path
       = Some \<lparr>content = version, st_mode = new_file_mode P\<rparr>"
    by (rule m)+
  from upload_ota_install_effect [OF f, where sv = sv]
  obtain s3 t where "install_candidate (staged P file members s) = Inr s3"
    and "if fst (probe_healthy sv s3)
         then upload_ota_install sv (staged P file members s)
                = Inr (Json ''Update successful'' 200, t) \<and> True
         else upload_ota_install sv (staged P file members s)
                = Inr (Json ''Failed to start new app, rollback done'' 500, t) \<and> True"
    by (auto split: if_splits)
  then show ?thesis
    by (auto simp: upload_ota_gate_passes [OF assms] split: if_splits)
qed

text \<open>
  C7. Whatever the request, a transaction that does not answer with success leaves the
  Recorded Digest and the Recorded Version as they were and makes no write to either; one
  that answers with success has written them as its last two actions, right after a check
  that found the service active, with the bytes of the package's digest and version
  members, and made no other write to them. For a package that passes both checks the
  answer is success exactly when the health probe, run on the state left by the
  installation, says healthy.
\<close>

theorem recorded_written_only_on_healthy_commit:
  "(upload_ota P sv req s = Inr (resp, s') \<longrightarrow>
      trace s' = trace s @ events_since s s'
      \<and> (resp \<noteq> Json ''Update successful'' 200 \<longrightarrow>
            files s' HASH_PATH = files s HASH_PATH
            \<and> files s' VERSION_PATH = files s VERSION_PATH
            \<and> filter writes_recorded (events_since s s') = [])
      \<and> (resp = Json ''Update successful'' 200 \<longrightarrow>
            (\<exists>pre upl ms h v.
               events_since s s' = pre @ [SystemctlIsActive True, Copy2 hash_path HASH_PATH,
                                           Copy2 version_path VERSION_PATH]
               \<and> filter writes_recorded pre = []
               \<and> files_file req = Some upl
               \<and> extractall P (stream upl) = Inr ms
               \<and> ms ''kaonic-commd.sha256'' = Some h
               \<and> ms ''kaonic-commd.version'' = Some v
               \<and> files s' HASH_PATH = Some \<lparr>content = h, st_mode = new_file_mode P\<rparr>
               \<and> files s' VERSION_PATH = Some \<lparr>content = v, st_mode = new_file_mode P\<rparr>)))
   \<and> (files_file req = Some file
      \<and> content_type file = ''application/x-zip-compressed''
      \<and> path_exists s VERIFY_KEY_PATH
      \<and> extractall P (stream file) = Inr members
      \<and> members ''kaonic-commd'' = Some bin
      \<and> members ''kaonic-commd.sha256'' = Some digest
      \<and> members ''kaonic-commd.version'' = Some version
      \<and> members ''kaonic-commd.sig'' = Some signature
      \<and> decode P digest = Inr claimed
      \<and> strip claimed = sha256_hexdigest P bin
      \<and> validate_signature P (staged P file members s) app_path sig_path VERIFY_KEY_PATH
           = Inr True
      \<longrightarrow> (\<exists>s3 t. install_candidate (staged P file members s) = Inr s3
            \<and> upload_ota P sv req s
                = Inr (if fst (probe_healthy sv s3) then Json ''Update successful'' 200
                       else Json ''Failed to start new app, rollback done'' 500, t)))"
  using upload_ota_recorded [of P sv req s resp s'] upload_ota_commit_or_rollback [of req "file" s P members bin digest version signature claimed sv]
  by blast

theorem recorded_written_only_on_healthy_commit_witness:
  "\<exists>t. upload_ota demo_platform always_active (upload_request ''good'') committed_device
          = Inr (Json ''Update successful'' 200, t)
     \<and> files t HASH_PATH = Some \<lparr>content = ''new'' @ [CHR 0x0A], st_mode = 420\<rparr>
     \<and> files t VERSION_PATH = Some \<lparr>content = ''v2'', st_mode = 420\<rparr>
     \<and> filter writes_recorded (events_since committed_device t)
         = [Copy2 hash_path HASH_PATH, Copy2 version_path VERSION_PATH]"
proof -
  let ?run = "upload_ota demo_platform always_active (upload_request ''good'') committed_device"
  have healthy: "fst (probe_healthy always_active w)" for w
    using always_active_always by (simp add: probe_healthy_always)
  have gate: "files_file (upload_request ''good'') = Some (zip_upload ''good'')
      \<and> content_type (zip_upload ''good'') = ''application/x-zip-compressed''
      \<and> path_exists committed_device VERIFY_KEY_PATH
      \<and> extractall demo_platform (stream (zip_upload ''good'')) = Inr good_members
      \<and> good_members ''kaonic-commd'' = Some ''new''
      \<and> good_members ''kaonic-commd.sha256'' = Some (''new'' @ [CHR 0x0A])
      \<and> good_members ''kaonic-commd.version'' = Some ''v2''
      \<and> good_members ''kaonic-commd.sig'' = Some ''sig:new''
      \<and> decode demo_platform (''new'' @ [CHR 0x0A]) = Inr [110, 101, 119, 10]
      \<and> strip [110, 101, 119, 10] = sha256_hexdigest demo_platform ''new''
      \<and> validate_signature demo_platform
           (staged demo_platform (zip_upload ''good'') good_members committed_device)
           app_path sig_path VERIFY_KEY_PATH = Inr True"
    by (intro conjI demo_request_simps demo_device_key demo_good_gate good_members_simps
        demo_decode_digest demo_signature_good)
  from recorded_written_only_on_healthy_commit [where P = demo_platform
      and sv = always_active and req = "upload_request ''good''" and s = committed_device
      and members = good_members and bin = "''new''" and digest = "''new'' @ [CHR 0x0A]"
      and version = "''v2''" and signature = "''sig:new''" and claimed = "[110, 101, 119, 10]",
      THEN conjunct2, rule_format, OF gate]
  obtain t where run: "?run = Inr (Json ''Update successful'' 200, t)"
    by (simp only: healthy if_True) blast
  from recorded_written_only_on_healthy_commit [where P = demo_platform
      and sv = always_active and req = "upload_request ''good''" and s = committed_device
      and resp = "Json ''Update successful'' 200" and s' = t,
      THEN conjunct1, rule_format, OF run]
  obtain pre upl ms h v where
    ev: "events_since committed_device t
           = pre @ [SystemctlIsActive True, Copy2 hash_path HASH_PATH,
                    Copy2 version_path VERSION_PATH]"
    and quiet: "filter writes_recorded pre = []"
    and upl: "files_file (upload_request ''good'') = Some upl"
    and ms: "extractall demo_platform (stream upl) = Inr ms"
    and h: "ms ''kaonic-commd.sha256'' = Some h"
    and v: "ms ''kaonic-commd.version'' = Some v"
    and fh: "files t HASH_PATH = Some \<lparr>content = h, st_mode = new_file_mode demo_platform\<rparr>"
    and fv: "files t VERSION_PATH = Some \<lparr>content = v, st_mode = new_file_mode demo_platform\<rparr>"
    by blast
  have "upl = zip_upload ''good''"
    using upl by (simp add: demo_request_simps)
  then have "ms = good_members"
    using ms by (simp add: demo_request_simps demo_extractall_simps)
  then have "h = ''new'' @ [CHR 0x0A]" "v = ''v2''"
    using h v by (simp_all add: good_members_simps)
  then have "files t HASH_PATH = Some \<lparr>content = ''new'' @ [CHR 0x0A], st_mode = 420\<rparr>
     \<and> files t VERSION_PATH = Some \<lparr>content = ''v2'', st_mode = 420\<rparr>
     \<and> filter writes_recorded (events_since committed_device t)
         = [Copy2 hash_path HASH_PATH, Copy2 version_path VERSION_PATH]"
    using fh fv ev quiet by (simp add: demo_simps)
  with run show ?thesis by blast
qed

subsection \<open>The startup reconciler\<close>

text \<open>
  C4, as the code has it. Without a metadata directory the reconciler creates it and does
  nothing else. With the directory, an Active or a Backup Binary, and a Recorded Digest
  file that, when present, is readable as text, it computes the digest of the Active
  Binary and, when the Active Binary is absent, the Recorded Digest is absent, or the two
  digests differ, it stops the service, runs \<open>restore_backup\<close> and starts the service:
  \<open>restore_backup\<close> copies the Backup Binary over the Active Binary when there is a
  Backup Binary, and does nothing when there is none, so that the Active Binary is then
  left as it was. When the recorded digest equals the computed one it changes nothing.
\<close>

theorem reconciler_runs_restore_backup:
  "(\<not> metadata_dir s \<longrightarrow>
      validate_app_file P s = Inr (s\<lparr>metadata_dir := True, trace := trace s @ [Mkdir]\<rparr>))
   \<and> (metadata_dir s \<and> (path_exists s APP_PATH \<or> path_exists s BACKUP_PATH)
       \<and> (path_exists s HASH_PATH \<longrightarrow> read_text P s HASH_PATH = Inr recorded)
       \<and> (\<not> path_exists s APP_PATH \<or> \<not> path_exists s HASH_PATH
           \<or> (sha256sum P s APP_PATH = Inr computed \<and> strip recorded \<noteq> computed))
      \<longrightarrow> validate_app_file P s
            = and_then (restore_backup (stop_kaonic_commd s)) (\<lambda>s1. Inr (launch_kaonic_commd s1))
          \<and> validate_app_file P s
            = Inr (case files s BACKUP_PATH of
                     None \<Rightarrow> s\<lparr>trace := trace s @ [SystemctlStop, SystemctlStart]\<rparr>
                   | Some b \<Rightarrow>
                       s\<lparr>files := (files s)(APP_PATH \<mapsto> b),
                         trace := trace s @ [SystemctlStop, Copy2 BACKUP_PATH APP_PATH,
                                             SystemctlStart]\<rparr>))
   \<and> (metadata_dir s \<and> read_text P s HASH_PATH = Inr recorded
       \<and> sha256sum P s APP_PATH = Inr computed \<and> strip recorded = computed
      \<longrightarrow> validate_app_file P s = Inr s)"
proof (intro conjI impI)
  show "validate_app_file P s = Inr (s\<lparr>metadata_dir := True, trace := trace s @ [Mkdir]\<rparr>)"
    if "\<not> metadata_dir s"
    using that by (simp add: validate_app_file_def mkdir_metadata_def)
next
  assume h: "metadata_dir s \<and> (path_exists s APP_PATH \<or> path_exists s BACKUP_PATH)
       \<and> (path_exists s HASH_PATH \<longrightarrow> read_text P s HASH_PATH = Inr recorded)
       \<and> (\<not> path_exists s APP_PATH \<or> \<not> path_exists s HASH_PATH
           \<or> (sha256sum P s APP_PATH = Inr computed \<and> strip recorded \<noteq> computed))"
  have app: "\<exists>d. sha256sum P s APP_PATH = Inr d" if "path_exists s APP_PATH"
    using that by (auto simp: sha256sum_def path_exists_def)
  show run: "validate_app_file P s
      = and_then (restore_backup (stop_kaonic_commd s)) (\<lambda>s1. Inr (launch_kaonic_commd s1))"
    using h app by (auto simp: validate_app_file_def)
  show "validate_app_file P s
            = Inr (case files s BACKUP_PATH of
                     None \<Rightarrow> s\<lparr>trace := trace s @ [SystemctlStop, SystemctlStart]\<rparr>
                   | Some b \<Rightarrow>
                       s\<lparr>files := (files s)(APP_PATH \<mapsto> b),
                         trace := trace s @ [SystemctlStop, Copy2 BACKUP_PATH APP_PATH,
                                             SystemctlStart]\<rparr>)"
    unfolding run
    by (simp add: restore_backup_effect stop_kaonic_commd_def launch_kaonic_commd_def
        split: option.splits)
next
  show "validate_app_file P s = Inr s"
    if "metadata_dir s \<and> read_text P s HASH_PATH = Inr recorded
       \<and> sha256sum P s APP_PATH = Inr computed \<and> strip recorded = computed"
  proof -
    from that have "path_exists s HASH_PATH" "path_exists s APP_PATH"
      by (auto simp: path_exists_def read_text_def read_bytes_def sha256sum_def
          split: option.splits)
    with that show ?thesis
      by (simp add: validate_app_file_def)
  qed
qed

theorem reconciler_runs_restore_backup_witness:
  "metadata_dir interrupted_device
   \<and> read_text demo_platform interrupted_device HASH_PATH = Inr [111, 108, 100, 10]
   \<and> sha256sum demo_platform interrupted_device APP_PATH = Inr [110, 101, 119]
   \<and> strip [111, 108, 100, 10] \<noteq> [110, 101, 119]
   \<and> validate_app_file demo_platform interrupted_device
       = Inr (interrupted_device
               \<lparr>files := (files interrupted_device)(APP_PATH \<mapsto> old_binary),
                trace := [SystemctlStop, Copy2 BACKUP_PATH APP_PATH, SystemctlStart]\<rparr>)
   \<and> metadata_dir committed_device
   \<and> read_text demo_platform committed_device HASH_PATH = Inr [111, 108, 100, 10]
   \<and> sha256sum demo_platform committed_device APP_PATH = Inr [111, 108, 100]
   \<and> strip [111, 108, 100, 10] = [111, 108, 100]
   \<and> validate_app_file demo_platform committed_device = Inr committed_device"
proof -
  have i: "metadata_dir interrupted_device" "path_exists interrupted_device APP_PATH"
    "path_exists interrupted_device HASH_PATH"
    "read_text demo_platform interrupted_device HASH_PATH = Inr [111, 108, 100, 10]"
    "sha256sum demo_platform interrupted_device APP_PATH = Inr [110, 101, 119]"
    "files interrupted_device BACKUP_PATH = Some old_binary"
    "trace interrupted_device = []"
    by (simp_all add: interrupted_device_def path_exists_def read_text_def read_bytes_def
        sha256sum_eq demo_simps)
  have c: "metadata_dir committed_device"
    "read_text demo_platform committed_device HASH_PATH = Inr [111, 108, 100, 10]"
    "sha256sum demo_platform committed_device APP_PATH = Inr [111, 108, 100]"
    by (simp_all add: committed_device_def old_binary_def read_text_def read_bytes_def
        sha256sum_eq demo_simps)
  have st: "strip [111, 108, 100, 10] \<noteq> [110, 101, 119]"
    "strip [111, 108, 100, 10] = [111, 108, 100]"
    by (simp_all add: strip_def isspace_def)
  from reconciler_runs_restore_backup [of interrupted_device demo_platform
        "[111, 108, 100, 10]" "[110, 101, 119]"] i st
  have "validate_app_file demo_platform interrupted_device
            = Inr (case files interrupted_device BACKUP_PATH of
                     None \<Rightarrow> interrupted_device\<lparr>trace := trace interrupted_device
                                @ [SystemctlStop, SystemctlStart]\<rparr>
                   | Some b \<Rightarrow>
                       interrupted_device\<lparr>files := (files interrupted_device)(APP_PATH \<mapsto> b),
                         trace := trace interrupted_device
                           @ [SystemctlStop, Copy2 BACKUP_PATH APP_PATH, SystemctlStart]\<rparr>)"
    by blast
  then have a: "validate_app_file demo_platform interrupted_device
       = Inr (interrupted_device
               \<lparr>files := (files interrupted_device)(APP_PATH \<mapsto> old_binary),
                trace := [SystemctlStop, Copy2 BACKUP_PATH APP_PATH, SystemctlStart]\<rparr>)"
    by (simp add: i)
  from reconciler_runs_restore_backup [of committed_device demo_platform
        "[111, 108, 100, 10]" "[111, 108, 100]"] c st
  have b: "validate_app_file demo_platform committed_device = Inr committed_device"
    by blast
  show ?thesis
    by (intro conjI i c st a b)
qed

text \<open>
  C4, as the specification states it, fails: on a device with the metadata directory and
  an Active Binary, but no Backup Binary and no Recorded Digest, the reconciler stops and
  starts the service and copies nothing. The Active Binary is not restored from a Backup
  Binary; it stays the file it was.
\<close>

theorem reconciler_without_backup_restores_nothing:
  "metadata_dir unrecorded_device
   \<and> path_exists unrecorded_device APP_PATH
   \<and> \<not> path_exists unrecorded_device BACKUP_PATH
   \<and> \<not> path_exists unrecorded_device HASH_PATH
   \<and> validate_app_file demo_platform unrecorded_device
       = Inr (unrecorded_device\<lparr>trace := [SystemctlStop, SystemctlStart]\<rparr>)
   \<and> files (unrecorded_device\<lparr>trace := [SystemctlStop, SystemctlStart]\<rparr>) APP_PATH
       = files unrecorded_device APP_PATH
   \<and> files unrecorded_device APP_PATH = Some old_binary"
  by (simp add: validate_app_file_def unrecorded_device_def path_exists_def sha256sum_eq
      restore_backup_effect stop_kaonic_commd_def launch_kaonic_commd_def)

end
